theory Spec2Isabelle
  imports Complex_Main "HOL-Library.Word"
begin

section \<open>OContext: the context-assembly pipeline of \<^verbatim>\<open>src/extension.ts\<close>\<close>

text \<open>
  The extension turns a selection of files and folders into one text document: a listing of
  relative paths followed by the fenced content of every file. The functions modelled here are
  \<^verbatim>\<open>buildIgnoreFilter\<close>, \<^verbatim>\<open>looksBinary\<close>, \<^verbatim>\<open>buildPromptToFile\<close> and \<^verbatim>\<open>buildPrompt\<close>.

  Everything the code asks of its surroundings (the file system, the editor API, the
  \<^verbatim>\<open>path\<close> module, the \<^verbatim>\<open>ignore\<close> package, the modal warning) is a field of the
  record \<open>env\<close>, so every theorem holds for all behaviours of these collaborators. A call
  that can throw returns \<open>error + 'a\<close>, with \<open>Inl\<close> for the exception.
\<close>

subsection \<open>Data\<close>

type_synonym buffer = "8 word list"

datatype error =
  StatError | ReadError | FindFilesError | TypeError | RangeError | StreamError | StringTooLong

text \<open>The two members of \<^verbatim>\<open>fs.Stats\<close> the code reads: \<^verbatim>\<open>isDirectory()\<close> and \<^verbatim>\<open>size\<close>.\<close>

record Stats =
  isDirectory :: bool
  stat_size :: nat

text \<open>The element type of \<^verbatim>\<open>files\<close>, \<^verbatim>\<open>{ abs: string; rel: string }\<close>.\<close>

record FileEntry =
  abs_path :: string
  rel_path :: string

text \<open>
  The surroundings of one run.
  \<^item> \<open>workspaceFolder\<close>: \<^verbatim>\<open>vscode.workspace.workspaceFolders?.[0]?.uri.fsPath\<close>, \<open>None\<close>
    when it is undefined;
  \<^item> \<open>stat\<close>, \<open>statSync\<close>, \<open>readFile\<close>: the three file-system calls. They are separate
    fields because they happen at different moments of a run (a file can be there when it
    is enumerated and gone when it is read);
  \<^item> \<open>findFiles\<close>: \<^verbatim>\<open>vscode.workspace.findFiles(new RelativePattern(p, "**/*"))\<close>, as the
    list of the \<^verbatim>\<open>fsPath\<close>s found;
  \<^item> \<open>path_join\<close>, \<open>path_relative\<close>: \<^verbatim>\<open>path.join\<close> and \<^verbatim>\<open>path.relative\<close>;
  \<^item> \<open>ignores\<close>: \<open>ignores content q\<close> is \<^verbatim>\<open>ignore().add(content).ignores(q)\<close>;
  \<^item> \<open>toString_utf8\<close>: the decoding of bytes as UTF-8 text;
  \<^item> \<open>maxStringLength\<close>: the length of the longest string the engine makes
    (\<^verbatim>\<open>buffer.constants.MAX_STRING_LENGTH\<close>); \<^verbatim>\<open>buffer.toString\<close> throws when the text is
    longer. The ignore file is taken to be within that length;
  \<^item> \<open>showWarningMessage\<close>: the answer to the modal warning, given the two numbers its
    message is formatted from (the file count and the estimated bytes); \<open>None\<close> when the
    dialog is dismissed;
  \<^item> \<open>stream_error\<close>: whether the write stream on the output file emits \<^verbatim>\<open>error\<close>
    instead of \<^verbatim>\<open>finish\<close>;
  \<^item> \<open>error_before_listener\<close>: when it does, whether that happens while the file loop
    awaits a read, before line 251 attaches the listener.
\<close>

record env =
  workspaceFolder :: "string option"
  stat :: "string \<Rightarrow> error + Stats"
  statSync :: "string \<Rightarrow> error + Stats"
  readFile :: "string \<Rightarrow> error + buffer"
  findFiles :: "string \<Rightarrow> error + string list"
  path_join :: "string \<Rightarrow> string \<Rightarrow> string"
  path_relative :: "string \<Rightarrow> string \<Rightarrow> string"
  ignores :: "string \<Rightarrow> string \<Rightarrow> error + bool"
  toString_utf8 :: "buffer \<Rightarrow> string"
  maxStringLength :: nat
  showWarningMessage :: "nat \<Rightarrow> nat \<Rightarrow> string option"
  stream_error :: bool
  error_before_listener :: bool

subsection \<open>\<^verbatim>\<open>looksBinary\<close> (lines 20-27)\<close>

text \<open>
  The \<^verbatim>\<open>for\<close> loop with its counter \<open>i\<close> and bound \<open>mx\<close> (the source's \<^verbatim>\<open>max\<close>). The
  index stays below \<open>mx \<le> length buffer\<close>, so \<open>buffer ! i\<close> is always a byte of the buffer.
\<close>

function looksBinary_loop :: "buffer \<Rightarrow> nat \<Rightarrow> nat \<Rightarrow> bool" where
  "looksBinary_loop buffer mx i =
     (if i < mx then (if buffer ! i = 0 then True else looksBinary_loop buffer mx (i + 1))
      else False)"
  by pat_completeness auto
termination
  by (relation "measure (\<lambda>(buffer, mx, i). mx - i)") auto

declare looksBinary_loop.simps [simp del]

definition looksBinary :: "buffer \<Rightarrow> bool" where
  "looksBinary buffer = (let mx = min (length buffer) 8192 in looksBinary_loop buffer mx 0)"

subsection \<open>\<^verbatim>\<open>buildIgnoreFilter\<close> (lines 7-17)\<close>

text \<open>
  The \<^verbatim>\<open>try\<close> covers reading \<^verbatim>\<open>.gitignore\<close>; when that fails the function returns
  \<^verbatim>\<open>() => true\<close>. Otherwise it returns the closure of line 12. The closure runs later,
  outside this \<^verbatim>\<open>try\<close>, so an exception of \<^verbatim>\<open>ig.ignores\<close> goes to whoever calls it.
\<close>

definition buildIgnoreFilter :: "env \<Rightarrow> string \<Rightarrow> (string \<Rightarrow> error + bool)" where
  "buildIgnoreFilter e rootDir =
     (let gitignorePath = path_join e rootDir ''.gitignore'' in
      case readFile e gitignorePath of
        Inl err \<Rightarrow> (\<lambda>p. Inr True)
      | Inr bytes \<Rightarrow>
          (let content = toString_utf8 e bytes in
           (\<lambda>p. case ignores e content (path_relative e rootDir p) of
                   Inl err \<Rightarrow> Inl err
                 | Inr b \<Rightarrow> Inr (\<not> b))))"

subsection \<open>Path expansion: the first loop of \<^verbatim>\<open>buildPromptToFile\<close> (lines 160-185)\<close>

text \<open>Line 160: \<^verbatim>\<open>workspaceFolders?.[0]?.uri.fsPath || ""\<close>.\<close>

definition workspace_root :: "env \<Rightarrow> string" where
  "workspace_root e =
     (case workspaceFolder e of
        None \<Rightarrow> []
      | Some fsPath \<Rightarrow> if fsPath = [] then [] else fsPath)"

text \<open>Line 164: \<^verbatim>\<open>root ? await buildIgnoreFilter(root) : () => true\<close>
  (\<open>rootDir\<close> stands for the variable \<^verbatim>\<open>root\<close>, a name HOL already uses).\<close>

definition allow_of :: "env \<Rightarrow> string \<Rightarrow> (string \<Rightarrow> error + bool)" where
  "allow_of e rootDir = (if rootDir \<noteq> [] then buildIgnoreFilter e rootDir else (\<lambda>p. Inr True))"

text \<open>
  \<^verbatim>\<open>rawFiles.filter((u) => allow(u.fsPath))\<close>: the predicate is called on every element in
  order; the first exception ends the call.
\<close>

fun filter_allow :: "(string \<Rightarrow> error + bool) \<Rightarrow> string list \<Rightarrow> error + string list" where
  "filter_allow allow [] = Inr []"
| "filter_allow allow (u # us) =
     (case allow u of
        Inl err \<Rightarrow> Inl err
      | Inr b \<Rightarrow>
          (case filter_allow allow us of
             Inl err \<Rightarrow> Inl err
           | Inr rest \<Rightarrow> Inr (if b then u # rest else rest)))"

text \<open>
  One iteration of the loop of lines 168-185, on the array \<open>files\<close>. The \<^verbatim>\<open>catch\<close> of
  line 182 takes every exception of the body (of \<^verbatim>\<open>stat\<close>, of \<^verbatim>\<open>findFiles\<close>, of the
  filter); none of them happens after a \<^verbatim>\<open>push\<close>, so \<open>files\<close> is then unchanged.
\<close>

definition expand_step ::
  "env \<Rightarrow> string \<Rightarrow> (string \<Rightarrow> error + bool) \<Rightarrow> FileEntry list \<Rightarrow> string \<Rightarrow> FileEntry list" where
  "expand_step e rootDir allow files p =
     (case stat e p of
        Inl err \<Rightarrow> files
      | Inr st \<Rightarrow>
          if isDirectory st then
            (case findFiles e p of
               Inl err \<Rightarrow> files
             | Inr rawFiles \<Rightarrow>
                 (case filter_allow allow rawFiles of
                    Inl err \<Rightarrow> files
                  | Inr all \<Rightarrow>
                      files @ map (\<lambda>u. \<lparr>abs_path = u, rel_path = path_relative e rootDir u\<rparr>) all))
          else files @ [\<lparr>abs_path = p, rel_path = path_relative e rootDir p\<rparr>])"

fun expand_loop ::
  "env \<Rightarrow> string \<Rightarrow> (string \<Rightarrow> error + bool) \<Rightarrow> FileEntry list \<Rightarrow> string list \<Rightarrow> FileEntry list" where
  "expand_loop e rootDir allow files [] = files"
| "expand_loop e rootDir allow files (p # fsPaths) =
     expand_loop e rootDir allow (expand_step e rootDir allow files p) fsPaths"

text \<open>Lines 160-185 together: the value of \<open>files\<close> at line 187.\<close>

definition toFile_files :: "env \<Rightarrow> string list \<Rightarrow> FileEntry list" where
  "toFile_files e fsPaths =
     (let rootDir = workspace_root e;
          allow = allow_of e rootDir
      in expand_loop e rootDir allow [] fsPaths)"

subsection \<open>Pre-flight checks (lines 190-209)\<close>

definition totalFiles :: "FileEntry list \<Rightarrow> nat" where
  "totalFiles files = length files"

text \<open>The loop of lines 194-201, on the counter \<open>estimatedBytes\<close>.\<close>

fun estimate_loop :: "env \<Rightarrow> nat \<Rightarrow> FileEntry list \<Rightarrow> nat" where
  "estimate_loop e estimatedBytes [] = estimatedBytes"
| "estimate_loop e estimatedBytes (f # files) =
     estimate_loop e
       (case statSync e (abs_path f) of
          Inl err \<Rightarrow> estimatedBytes
        | Inr st \<Rightarrow> estimatedBytes + stat_size st)
       files"

definition estimatedBytes :: "env \<Rightarrow> FileEntry list \<Rightarrow> nat" where
  "estimatedBytes e files = estimate_loop e 0 files"

text \<open>
  Line 203. The source divides a JavaScript number; dividing by 1024 only changes the
  exponent of a binary floating-point number, so the quotient is exact and is modelled as
  a real.
\<close>

definition estimatedMB :: "env \<Rightarrow> FileEntry list \<Rightarrow> real" where
  "estimatedMB e files = real (estimatedBytes e files) / 1024 / 1024"

text \<open>The condition of the \<^verbatim>\<open>if\<close> of line 205.\<close>

definition requiresConfirmation :: "env \<Rightarrow> FileEntry list \<Rightarrow> bool" where
  "requiresConfirmation e files \<longleftrightarrow> totalFiles files > 1000 \<or> estimatedMB e files > 10"

subsection \<open>Streaming (lines 213-253)\<close>

text \<open>\<^verbatim>\<open>Array.prototype.join\<close>.\<close>

fun join :: "string \<Rightarrow> string list \<Rightarrow> string" where
  "join sep [] = []"
| "join sep [x] = x"
| "join sep (x # y # ys) = x @ sep @ join sep (y # ys)"

text \<open>
  The write stream \<open>out\<close> is the list of the chunks handed to \<^verbatim>\<open>out.write\<close>, in order;
  the file holds their concatenation once the stream has finished.
\<close>

text \<open>The template literal of lines 217-221.\<close>

definition toFile_header :: "FileEntry list \<Rightarrow> string" where
  "toFile_header files =
     ''# Context Generation Request\<newline>\<newline>## Project Structure:\<newline>```\<newline>''
     @ join ''\<newline>'' (map (\<lambda>f. rel_path f) files)
     @ ''\<newline>```\<newline>\<newline>## File Contents:\<newline>\<newline>''"

text \<open>\<^verbatim>\<open>buffer.toString("utf8")\<close>, lines 237 and 302.\<close>

definition buffer_toString :: "env \<Rightarrow> buffer \<Rightarrow> error + string" where
  "buffer_toString e buffer =
     (let content = toString_utf8 e buffer
      in if maxStringLength e < length content then Inl StringTooLong else Inr content)"

text \<open>
  The chunks one iteration of the loop of lines 224-246 writes for the entry \<open>f\<close>:
  \<^item> the chunk of the \<^verbatim>\<open>catch\<close> branch when \<^verbatim>\<open>readFile\<close> throws;
  \<^item> nothing after \<^verbatim>\<open>continue\<close>;
  \<^item> when \<^verbatim>\<open>buffer.toString\<close> throws at line 237, the header of line 234, which is
    written by then, and after it the chunk of the \<^verbatim>\<open>catch\<close> branch;
  \<^item> the three writes of lines 234, 238 and 241 otherwise.
\<close>

definition stream_file :: "env \<Rightarrow> FileEntry \<Rightarrow> string list" where
  "stream_file e f =
     (case readFile e (abs_path f) of
        Inl err \<Rightarrow> [''### '' @ rel_path f @ ''\<newline>```\<newline>[unreadable]\<newline>```\<newline>\<newline>'']
      | Inr buffer \<Rightarrow>
          if looksBinary buffer then []
          else (case buffer_toString e buffer of
                  Inl err \<Rightarrow>
                    [''### '' @ rel_path f @ ''\<newline>```\<newline>'',
                     ''### '' @ rel_path f @ ''\<newline>```\<newline>[unreadable]\<newline>```\<newline>\<newline>'']
                | Inr content \<Rightarrow>
                    [''### '' @ rel_path f @ ''\<newline>```\<newline>'',
                     content,
                     ''\<newline>```\<newline>\<newline>'']))"

fun stream_files :: "env \<Rightarrow> string list \<Rightarrow> FileEntry list \<Rightarrow> string list" where
  "stream_files e out [] = out"
| "stream_files e out (f # files) = stream_files e (out @ stream_file e f) files"

text \<open>Lines 216-246: everything written to \<open>out\<close>.\<close>

definition toFile_stream :: "env \<Rightarrow> FileEntry list \<Rightarrow> string list" where
  "toFile_stream e files = stream_files e [toFile_header files] files"

subsection \<open>\<^verbatim>\<open>buildPromptToFile\<close> (lines 157-256)\<close>

text \<open>
  The argument \<open>outputFile\<close> is the content of the file at the output path before the call
  (\<open>None\<close>: there is no such file). The result is \<open>None\<close> when the promise the function
  returns is never settled, \<open>Some (Inl err)\<close> when it is rejected, and \<open>Some (Inr c)\<close> when
  it is fulfilled, \<open>c\<close> being the content of the file at the output path after the call.

  The \<^verbatim>\<open>return\<close> of line 208 comes before \<^verbatim>\<open>fs.createWriteStream\<close>; after it the stream
  creates or truncates the file and the chunks are written. The promise of lines 249-252
  waits for \<^verbatim>\<open>finish\<close> or \<^verbatim>\<open>error\<close>, and its two listeners are attached only there,
  after the file loop. An \<^verbatim>\<open>error\<close> the stream emits after that rejects the promise. An
  \<^verbatim>\<open>error\<close> it emits before that, which needs an \<^verbatim>\<open>await\<close> of the loop and so at least
  one entry, finds no listener, and neither event comes later: the promise stays pending
  (if the unhandled event does not end the process).
  Nothing is said about the file when the stream fails. The files that are read are taken
  to be other files than the output file.
\<close>

definition buildPromptToFile ::
  "env \<Rightarrow> string list \<Rightarrow> string option \<Rightarrow> (error + string option) option" where
  "buildPromptToFile e fsPaths outputFile =
     (let files = toFile_files e fsPaths in
      if requiresConfirmation e files
         \<and> showWarningMessage e (totalFiles files) (estimatedBytes e files) \<noteq> Some ''Yes''
      then Some (Inr outputFile)
      else if stream_error e then
        (if error_before_listener e \<and> files \<noteq> [] then None else Some (Inl StreamError))
      else Some (Inr (Some (concat (toFile_stream e files)))))"

subsection \<open>\<^verbatim>\<open>buildPrompt\<close> (lines 258-312)\<close>

text \<open>The loop of lines 269-286, translated on its own.\<close>

definition prompt_expand_step ::
  "env \<Rightarrow> string \<Rightarrow> (string \<Rightarrow> error + bool) \<Rightarrow> FileEntry list \<Rightarrow> string \<Rightarrow> FileEntry list" where
  "prompt_expand_step e rootDir allow files p =
     (case stat e p of
        Inl err \<Rightarrow> files
      | Inr st \<Rightarrow>
          if isDirectory st then
            (case findFiles e p of
               Inl err \<Rightarrow> files
             | Inr rawFiles \<Rightarrow>
                 (case filter_allow allow rawFiles of
                    Inl err \<Rightarrow> files
                  | Inr all \<Rightarrow>
                      files @ map (\<lambda>u. \<lparr>abs_path = u, rel_path = path_relative e rootDir u\<rparr>) all))
          else files @ [\<lparr>abs_path = p, rel_path = path_relative e rootDir p\<rparr>])"

fun prompt_expand_loop ::
  "env \<Rightarrow> string \<Rightarrow> (string \<Rightarrow> error + bool) \<Rightarrow> FileEntry list \<Rightarrow> string list \<Rightarrow> FileEntry list" where
  "prompt_expand_loop e rootDir allow files [] = files"
| "prompt_expand_loop e rootDir allow files (p # fsPaths) =
     prompt_expand_loop e rootDir allow (prompt_expand_step e rootDir allow files p) fsPaths"

text \<open>
  The loop of lines 294-308, on the string \<open>prompt\<close>. Here \<^verbatim>\<open>buffer.toString\<close> (line 302)
  comes before anything is appended, so when it throws the \<^verbatim>\<open>catch\<close> branch appends its
  section to the prompt as it was.
\<close>

fun prompt_loop :: "env \<Rightarrow> string \<Rightarrow> FileEntry list \<Rightarrow> string" where
  "prompt_loop e prompt [] = prompt"
| "prompt_loop e prompt (f # files) =
     prompt_loop e
       (case readFile e (abs_path f) of
          Inl err \<Rightarrow> prompt @ ''### '' @ rel_path f @ ''\<newline>```\<newline>[unreadable]\<newline>```\<newline>\<newline>''
        | Inr buffer \<Rightarrow>
            if looksBinary buffer then prompt
            else (case buffer_toString e buffer of
                    Inl err \<Rightarrow>
                      prompt @ ''### '' @ rel_path f @ ''\<newline>```\<newline>[unreadable]\<newline>```\<newline>\<newline>''
                  | Inr content \<Rightarrow>
                      prompt @ ''### '' @ rel_path f @ ''\<newline>```\<newline>'' @ content
                        @ ''\<newline>```\<newline>\<newline>''))
       files"

definition buildPrompt :: "env \<Rightarrow> string list \<Rightarrow> string" where
  "buildPrompt e fsPaths =
     (let rootDir = (case workspaceFolder e of
                    None \<Rightarrow> []
                  | Some fsPath \<Rightarrow> if fsPath = [] then [] else fsPath);
          allow = (if rootDir \<noteq> [] then buildIgnoreFilter e rootDir else (\<lambda>p. Inr True));
          files = prompt_expand_loop e rootDir allow [] fsPaths;
          prompt = ''# Context Generation Request\<newline>\<newline>## Project Structure:\<newline>```\<newline>''
                   @ join ''\<newline>'' (map (\<lambda>f. rel_path f) files)
                   @ ''\<newline>```\<newline>\<newline>## File Contents:\<newline>\<newline>''
      in prompt_loop e prompt files)"

text \<open>
  The entries on which \<^verbatim>\<open>buffer.toString\<close> is not called or does not throw: the read
  fails, the bytes look binary, or the text is within the longest string.
\<close>

definition decodes :: "env \<Rightarrow> FileEntry \<Rightarrow> bool" where
  "decodes e f =
     (case readFile e (abs_path f) of
        Inl err \<Rightarrow> True
      | Inr buffer \<Rightarrow>
          looksBinary buffer \<or> length (toString_utf8 e buffer) \<le> maxStringLength e)"

section \<open>A concrete environment\<close>

text \<open>
  The theorems below hold for every \<open>env\<close>. To run the model on examples, the library
  calls need concrete stand-ins. They are written from the documented behaviour of the
  Node.js \<^verbatim>\<open>path\<close> module (POSIX flavour) and of the \<^verbatim>\<open>ignore\<close> package; neither is code
  of this repository.
\<close>

subsection \<open>POSIX paths\<close>

text \<open>\<^verbatim>\<open>s.split(c)\<close> for a one-character separator.\<close>

fun split_char :: "char \<Rightarrow> string \<Rightarrow> string list" where
  "split_char c [] = [[]]"
| "split_char c (x # xs) =
     (if x = c then [] # split_char c xs
      else (case split_char c xs of
              [] \<Rightarrow> [[x]]
            | l # ls \<Rightarrow> (x # l) # ls))"

text \<open>
  Normalising the segments of an absolute path: empty segments and \<^verbatim>\<open>.\<close> are dropped,
  \<^verbatim>\<open>..\<close> removes the segment before it (and nothing at the top).
\<close>

fun normalize_segs :: "string list \<Rightarrow> string list \<Rightarrow> string list" where
  "normalize_segs acc [] = acc"
| "normalize_segs acc (s # ss) =
     (if s = [] \<or> s = ''.'' then normalize_segs acc ss
      else if s = ''..'' then normalize_segs (butlast acc) ss
      else normalize_segs (acc @ [s]) ss)"

text \<open>
  \<^verbatim>\<open>path.resolve(p)\<close> in a process whose working directory is \<open>cwd\<close>, as the list of the
  segments of the absolute path: a path that does not start with \<^verbatim>\<open>/\<close>, the empty string
  included, is taken below \<open>cwd\<close>.
\<close>

definition posix_resolve :: "string \<Rightarrow> string \<Rightarrow> string list" where
  "posix_resolve cwd p =
     normalize_segs []
       (split_char CHR ''/'' (if p \<noteq> [] \<and> hd p = CHR ''/'' then p else cwd @ ''/'' @ p))"

fun drop_common :: "string list \<Rightarrow> string list \<Rightarrow> string list \<times> string list" where
  "drop_common (x # xs) (y # ys) = (if x = y then drop_common xs ys else (x # xs, y # ys))"
| "drop_common xs ys = (xs, ys)"

text \<open>
  \<^verbatim>\<open>path.relative(from, to)\<close>: both arguments are resolved, the common leading segments
  are dropped, and the result climbs out of what is left of \<open>from\<close> with one \<^verbatim>\<open>..\<close> per
  segment before it descends into what is left of \<open>to\<close>.
\<close>

definition posix_relative :: "string \<Rightarrow> string \<Rightarrow> string \<Rightarrow> string" where
  "posix_relative cwd from to =
     (if from = to then []
      else (case drop_common (posix_resolve cwd from) (posix_resolve cwd to) of
              (up, down) \<Rightarrow> join ''/'' (map (\<lambda>s. ''..'') up @ down)))"

text \<open>\<^verbatim>\<open>path.join(a, b)\<close> for an absolute, non-empty \<open>a\<close> (the workspace folder).\<close>

definition posix_join :: "string \<Rightarrow> string \<Rightarrow> string" where
  "posix_join a b = ''/'' @ join ''/'' (normalize_segs [] (split_char CHR ''/'' (a @ ''/'' @ b)))"

subsection \<open>The \<^verbatim>\<open>ignore\<close> package\<close>

text \<open>
  Since its version 5 the package validates the path handed to \<^verbatim>\<open>ignores\<close> before it
  looks at any rule: the empty path raises a \<^verbatim>\<open>TypeError\<close>, and a path that matches
  \<^verbatim>\<open>/^\.*\/|^\.+$/\<close> (dots followed by a slash, or dots only: \<^verbatim>\<open>/x\<close>, \<^verbatim>\<open>./x\<close>,
  \<^verbatim>\<open>../x\<close>, \<^verbatim>\<open>..\<close>) raises a \<^verbatim>\<open>RangeError\<close>. \<open>ignore_checkPath\<close> is that check.
\<close>

definition ignore_checkPath :: "string \<Rightarrow> error option" where
  "ignore_checkPath q =
     (if q = [] then Some TypeError
      else (let r = dropWhile (\<lambda>c. c = CHR ''.'') q
            in if r = [] \<or> hd r = CHR ''/'' then Some RangeError else None))"

text \<open>
  A stand-in for the rule dialect, enough for the examples: every line of the ignore file
  names one relative path, literally.
\<close>

definition literal_rules :: "string \<Rightarrow> string \<Rightarrow> bool" where
  "literal_rules content q \<longleftrightarrow> q \<in> set (split_char CHR ''\<newline>'' content)"

definition node_ignores :: "string \<Rightarrow> string \<Rightarrow> error + bool" where
  "node_ignores content q =
     (case ignore_checkPath q of
        Some err \<Rightarrow> Inl err
      | None \<Rightarrow> Inr (literal_rules content q))"

subsection \<open>A small workspace\<close>

text \<open>Decoding for the examples: every byte is one character.\<close>

definition bytes_toString :: "buffer \<Rightarrow> string" where
  "bytes_toString buffer = map (\<lambda>b. char_of (unat b)) buffer"

text \<open>
  The folder \<^verbatim>\<open>/w\<close> holds \<^verbatim>\<open>.gitignore\<close> (the one line \<^verbatim>\<open>b.bin\<close>), \<^verbatim>\<open>a.txt\<close>
  (\<^verbatim>\<open>hello\<close>) and \<^verbatim>\<open>b.bin\<close> (the bytes 0, 1, 2); \<^verbatim>\<open>/other/b.bin\<close>, outside
  the folder, holds \<^verbatim>\<open>hi\<close>.
  The folder \<^verbatim>\<open>/w\<close> is the workspace folder, the process runs in \<^verbatim>\<open>/opt/code\<close>,
  the longest string has \<open>2 ^ 29 - 24\<close> characters, the user dismisses the warning, and
  the write stream finishes.
\<close>

definition example_files :: "(string \<times> buffer) list" where
  "example_files =
     [(''/w/.gitignore'', [98, 46, 98, 105, 110]),
      (''/w/a.txt'', [104, 101, 108, 108, 111]),
      (''/w/b.bin'', [0, 1, 2]),
      (''/other/b.bin'', [104, 105])]"

definition example_stat :: "string \<Rightarrow> error + Stats" where
  "example_stat p =
     (if p = ''/w'' \<or> p = ''/other'' then Inr \<lparr>isDirectory = True, stat_size = 4096\<rparr>
      else (case map_of example_files p of
              None \<Rightarrow> Inl StatError
            | Some buffer \<Rightarrow> Inr \<lparr>isDirectory = False, stat_size = length buffer\<rparr>))"

definition example_readFile :: "string \<Rightarrow> error + buffer" where
  "example_readFile p =
     (case map_of example_files p of None \<Rightarrow> Inl ReadError | Some buffer \<Rightarrow> Inr buffer)"

definition example_findFiles :: "string \<Rightarrow> error + string list" where
  "example_findFiles p =
     (if p = ''/w'' then Inr [''/w/a.txt'', ''/w/b.bin'']
      else if p = ''/other'' then Inr [''/other/b.bin'']
      else Inr [])"

definition example_env :: env where
  "example_env =
     \<lparr>workspaceFolder = Some ''/w'',
      stat = example_stat,
      statSync = example_stat,
      readFile = example_readFile,
      findFiles = example_findFiles,
      path_join = posix_join,
      path_relative = posix_relative ''/opt/code'',
      ignores = node_ignores,
      toString_utf8 = bytes_toString,
      maxStringLength = 536870888,
      showWarningMessage = (\<lambda>n b. None),
      stream_error = False,
      error_before_listener = False\<rparr>"

text \<open>
  The same workspace with one more entry, the named pipe \<^verbatim>\<open>/w/pipe\<close>: \<^verbatim>\<open>stat\<close> and
  \<^verbatim>\<open>statSync\<close> report a file of size 0 for it, and \<^verbatim>\<open>readFile\<close> gets 536870889 bytes
  from it, each the letter \<^verbatim>\<open>a\<close>: one more than the longest string.
\<close>

definition pipe_env :: env where
  "pipe_env =
     example_env
       \<lparr>stat := (\<lambda>p. if p = ''/w/pipe'' then Inr \<lparr>isDirectory = False, stat_size = 0\<rparr>
                      else example_stat p),
        statSync := (\<lambda>p. if p = ''/w/pipe'' then Inr \<lparr>isDirectory = False, stat_size = 0\<rparr>
                          else example_stat p),
        readFile := (\<lambda>p. if p = ''/w/pipe'' then Inr (replicate 536870889 97)
                          else example_readFile p)\<rparr>"

section \<open>Properties\<close>

subsection \<open>Properties of \<^verbatim>\<open>looksBinary\<close>\<close>

lemma looksBinary_loop_iff:
  "looksBinary_loop buffer mx i \<longleftrightarrow> (\<exists>j. i \<le> j \<and> j < mx \<and> buffer ! j = 0)"
proof (induction buffer mx i rule: looksBinary_loop.induct)
  case (1 buffer mx i)
  show ?case
  proof (cases "i < mx")
    case False
    then show ?thesis by (simp add: looksBinary_loop.simps [of buffer mx i])
  next
    case True
    show ?thesis
    proof (cases "buffer ! i = 0")
      case z: True
      with True have "\<exists>j. i \<le> j \<and> j < mx \<and> buffer ! j = 0" by blast
      with True z show ?thesis by (simp add: looksBinary_loop.simps [of buffer mx i])
    next
      case nz: False
      have "(\<exists>j. i + 1 \<le> j \<and> j < mx \<and> buffer ! j = 0) \<longleftrightarrow> (\<exists>j. i \<le> j \<and> j < mx \<and> buffer ! j = 0)"
      proof
        assume "\<exists>j. i + 1 \<le> j \<and> j < mx \<and> buffer ! j = 0"
        then obtain j where "i + 1 \<le> j" "j < mx" "buffer ! j = 0" by blast
        then have "i \<le> j \<and> j < mx \<and> buffer ! j = 0" by simp
        then show "\<exists>j. i \<le> j \<and> j < mx \<and> buffer ! j = 0" ..
      next
        assume "\<exists>j. i \<le> j \<and> j < mx \<and> buffer ! j = 0"
        then obtain j where j: "i \<le> j" "j < mx" "buffer ! j = 0" by blast
        with nz have "j \<noteq> i" by auto
        with j have "i + 1 \<le> j \<and> j < mx \<and> buffer ! j = 0" by simp
        then show "\<exists>j. i + 1 \<le> j \<and> j < mx \<and> buffer ! j = 0" ..
      qed
      with "1.IH" [OF True nz] True nz show ?thesis
        by (simp add: looksBinary_loop.simps [of buffer mx i])
    qed
  qed
qed

lemma looksBinary_index:
  "looksBinary buffer \<longleftrightarrow> (\<exists>j < min (length buffer) 8192. buffer ! j = 0)"
  by (simp add: looksBinary_def looksBinary_loop_iff)

lemma looksBinary_take: "looksBinary buffer \<longleftrightarrow> 0 \<in> set (take 8192 buffer)"
proof -
  have "0 \<in> set (take 8192 buffer) \<longleftrightarrow> (\<exists>j < length (take 8192 buffer). take 8192 buffer ! j = 0)"
    by (simp add: in_set_conv_nth)
  also have "\<dots> \<longleftrightarrow> (\<exists>j < min (length buffer) 8192. buffer ! j = 0)"
    by auto
  finally show ?thesis by (simp add: looksBinary_index)
qed

text \<open>
  Claim C2. \<^verbatim>\<open>looksBinary\<close> answers true exactly when one of the first
  \<open>min (length buffer) 8192\<close> bytes is \<open>0x00\<close>; two buffers that agree on their first 8192
  bytes get the same answer, whatever follows. The function is a pure function of the
  buffer: it takes no environment and returns only the boolean.
\<close>

theorem looksBinary_first_8192:
  "(looksBinary buffer \<longleftrightarrow> (\<exists>j. j < min (length buffer) 8192 \<and> buffer ! j = 0))
   \<and> (looksBinary buffer \<longleftrightarrow> 0 \<in> set (take 8192 buffer))
   \<and> (take 8192 buffer = take 8192 buffer' \<longrightarrow> looksBinary buffer = looksBinary buffer')"
  using looksBinary_index [of buffer] looksBinary_take [of buffer] looksBinary_take [of buffer']
  by auto

theorem looksBinary_first_8192_witness:
  "looksBinary [1, 2, 0, 3] \<and> \<not> looksBinary [104, 105]
   \<and> looksBinary (replicate 8191 1 @ [0]) \<and> \<not> looksBinary (replicate 8192 1 @ [0])
   \<and> looksBinary (replicate 8192 1 @ [0]) = looksBinary (replicate 8192 1 @ [7, 7])"
proof -
  have a: "looksBinary [1, 2, 0, 3]"
    using looksBinary_first_8192 [of "[1, 2, 0, 3]" "[]", THEN conjunct2, THEN conjunct1]
    by simp
  have b: "\<not> looksBinary [104, 105]"
    using looksBinary_first_8192 [of "[104, 105]" "[]", THEN conjunct2, THEN conjunct1]
    by simp
  have c: "looksBinary (replicate 8191 1 @ [0])"
    using looksBinary_first_8192 [of "replicate 8191 1 @ [0]" "[]", THEN conjunct2, THEN conjunct1]
    by simp
  have d: "\<not> looksBinary (replicate 8192 1 @ [0])"
    using looksBinary_first_8192 [of "replicate 8192 1 @ [0]" "[]", THEN conjunct2, THEN conjunct1]
    by simp
  have e: "looksBinary (replicate 8192 1 @ [0]) = looksBinary (replicate 8192 1 @ [7, 7])"
    using looksBinary_first_8192 [of "replicate 8192 1 @ [0]" "replicate 8192 1 @ [7, 7]",
        THEN conjunct2, THEN conjunct2]
    by simp
  from a b c d e show ?thesis by blast
qed


subsection \<open>Evaluating the concrete environment\<close>

lemmas example_simps =
  example_env_def example_stat_def example_files_def example_readFile_def example_findFiles_def
  posix_relative_def posix_resolve_def posix_join_def
  node_ignores_def ignore_checkPath_def literal_rules_def buffer_toString_def

lemma example_gitignore_content: "bytes_toString [98, 46, 98, 105, 110] = ''b.bin''"
  by code_simp

lemma example_a_txt_content: "bytes_toString [104, 101, 108, 108, 111] = ''hello''"
  by code_simp

lemma example_workspace_root: "workspace_root example_env = ''/w''"
  by (simp add: workspace_root_def example_env_def)

lemma example_ignores_b_bin: "buildIgnoreFilter example_env ''/w'' ''/w/b.bin'' = Inr False"
  by (simp add: buildIgnoreFilter_def example_gitignore_content example_simps)

lemma example_other_content: "bytes_toString [104, 105] = ''hi''"
  by code_simp

lemma example_looksBinary_b_bin: "looksBinary [0, 1, 2]"
  by (simp add: looksBinary_take)

lemma example_not_looksBinary_a_txt: "\<not> looksBinary [104, 101, 108, 108, 111]"
  by (simp add: looksBinary_take)

lemma example_not_looksBinary_other: "\<not> looksBinary [104, 105]"
  by (simp add: looksBinary_take)

lemmas example_contents =
  example_gitignore_content example_a_txt_content example_other_content
  example_looksBinary_b_bin example_not_looksBinary_a_txt example_not_looksBinary_other

lemmas pipeline_defs =
  toFile_files_def workspace_root_def allow_of_def expand_step_def buildIgnoreFilter_def
  requiresConfirmation_def totalFiles_def estimatedBytes_def estimatedMB_def

subsection \<open>Path expansion\<close>

lemma expand_step_append:
  "expand_step e rootDir allow files p = files @ expand_step e rootDir allow [] p"
  by (simp add: expand_step_def split: sum.splits)

lemma expand_loop_concat:
  "expand_loop e rootDir allow files fsPaths
     = files @ concat (map (expand_step e rootDir allow []) fsPaths)"
proof (induction fsPaths arbitrary: files)
  case Nil
  show ?case by simp
next
  case (Cons p fsPaths)
  show ?case
    using Cons.IH [of "expand_step e rootDir allow files p"]
      expand_step_append [of e rootDir allow files p]
    by simp
qed

lemma expand_step_file:
  assumes "stat e p = Inr st" and "\<not> isDirectory st"
  shows "expand_step e rootDir allow files p
           = files @ [\<lparr>abs_path = p, rel_path = path_relative e rootDir p\<rparr>]"
  using assms by (simp add: expand_step_def)

lemma expand_loop_file_member:
  assumes "stat e p = Inr st" and "\<not> isDirectory st" and "p \<in> set fsPaths"
  shows "\<lparr>abs_path = p, rel_path = path_relative e rootDir p\<rparr>
           \<in> set (expand_loop e rootDir allow files fsPaths)"
proof -
  have "\<lparr>abs_path = p, rel_path = path_relative e rootDir p\<rparr>
          \<in> set (expand_step e rootDir allow [] p)"
    using expand_step_file [OF assms(1,2), of rootDir allow "[]"] by simp
  with assms(3) show ?thesis
    by (auto simp: expand_loop_concat)
qed

lemma expand_step_no_directory:
  assumes "\<forall>st. stat e p = Inr st \<longrightarrow> \<not> isDirectory st"
  shows "expand_step e rootDir allow files p = expand_step e rootDir allow' files p"
  using assms by (simp add: expand_step_def split: sum.splits)

lemma expand_loop_no_directory:
  assumes "\<forall>p \<in> set fsPaths. \<forall>st. stat e p = Inr st \<longrightarrow> \<not> isDirectory st"
  shows "expand_loop e rootDir allow files fsPaths = expand_loop e rootDir allow' files fsPaths"
proof -
  have "map (expand_step e rootDir allow []) fsPaths = map (expand_step e rootDir allow' []) fsPaths"
    using assms by (intro map_cong refl expand_step_no_directory) blast
  then show ?thesis
    unfolding expand_loop_concat by (rule arg_cong [where f = "\<lambda>xs. files @ concat xs"])
qed

lemma filter_allow_total:
  assumes "\<forall>u \<in> set us. allow u = Inr True \<or> allow u = Inr False"
  shows "filter_allow allow us = Inr (filter (\<lambda>u. allow u = Inr True) us)"
  using assms by (induction us) auto

lemma expand_step_directory:
  assumes "stat e p = Inr st" and "isDirectory st" and "findFiles e p = Inr rawFiles"
    and "\<forall>u \<in> set rawFiles. allow u = Inr True \<or> allow u = Inr False"
  shows "expand_step e rootDir allow files p
           = files @ map (\<lambda>u. \<lparr>abs_path = u, rel_path = path_relative e rootDir u\<rparr>)
                       (filter (\<lambda>u. allow u = Inr True) rawFiles)"
  using assms by (simp add: expand_step_def filter_allow_total)

lemma expand_step_rel:
  assumes "f \<in> set (expand_step e rootDir allow [] p)"
  shows "rel_path f = path_relative e rootDir (abs_path f)"
  using assms by (auto simp: expand_step_def split: sum.splits if_splits)

lemma expand_loop_rel:
  assumes "f \<in> set (expand_loop e rootDir allow [] fsPaths)"
  shows "rel_path f = path_relative e rootDir (abs_path f)"
  using assms by (auto simp: expand_loop_concat dest: expand_step_rel)

text \<open>
  Claim C1. An input path that stats successfully and is not a directory is pushed as a
  FileEntry whatever the ignore filter \<open>allow\<close> is (one that rejects or throws included):
  the iteration appends exactly that entry, the entry is in the final list for every
  filter, so it is listed by \<^verbatim>\<open>buildPromptToFile\<close>; and when no input is a directory the
  whole list does not depend on the filter. The filter is applied to what \<^verbatim>\<open>findFiles\<close>
  returns for a directory input: of those paths the ones it allows are pushed.
\<close>

theorem file_input_bypasses_ignore:
  "(stat e p = Inr st \<and> \<not> isDirectory st \<longrightarrow>
      expand_step e rootDir allow files p
        = files @ [\<lparr>abs_path = p, rel_path = path_relative e rootDir p\<rparr>])
   \<and> (stat e p = Inr st \<and> \<not> isDirectory st \<and> p \<in> set fsPaths \<longrightarrow>
      \<lparr>abs_path = p, rel_path = path_relative e rootDir p\<rparr>
        \<in> set (expand_loop e rootDir allow files fsPaths))
   \<and> (stat e p = Inr st \<and> \<not> isDirectory st \<and> p \<in> set fsPaths \<longrightarrow>
      \<lparr>abs_path = p, rel_path = path_relative e (workspace_root e) p\<rparr>
        \<in> set (toFile_files e fsPaths))
   \<and> ((\<forall>q \<in> set fsPaths. \<forall>s. stat e q = Inr s \<longrightarrow> \<not> isDirectory s) \<longrightarrow>
      expand_loop e rootDir allow files fsPaths = expand_loop e rootDir allow' files fsPaths)
   \<and> (stat e d = Inr sd \<and> isDirectory sd \<and> findFiles e d = Inr rawFiles
        \<and> (\<forall>u \<in> set rawFiles. allow u = Inr True \<or> allow u = Inr False) \<longrightarrow>
      expand_step e rootDir allow files d
        = files @ map (\<lambda>u. \<lparr>abs_path = u, rel_path = path_relative e rootDir u\<rparr>)
                    (filter (\<lambda>u. allow u = Inr True) rawFiles))"
proof (intro conjI impI)
  assume "stat e p = Inr st \<and> \<not> isDirectory st"
  then show "expand_step e rootDir allow files p
      = files @ [\<lparr>abs_path = p, rel_path = path_relative e rootDir p\<rparr>]"
    by (simp add: expand_step_file)
next
  assume "stat e p = Inr st \<and> \<not> isDirectory st \<and> p \<in> set fsPaths"
  then show "\<lparr>abs_path = p, rel_path = path_relative e rootDir p\<rparr>
      \<in> set (expand_loop e rootDir allow files fsPaths)"
    by (blast intro: expand_loop_file_member)
next
  assume "stat e p = Inr st \<and> \<not> isDirectory st \<and> p \<in> set fsPaths"
  then show "\<lparr>abs_path = p, rel_path = path_relative e (workspace_root e) p\<rparr>
      \<in> set (toFile_files e fsPaths)"
    unfolding toFile_files_def Let_def by (blast intro: expand_loop_file_member)
next
  assume "\<forall>q \<in> set fsPaths. \<forall>s. stat e q = Inr s \<longrightarrow> \<not> isDirectory s"
  then show "expand_loop e rootDir allow files fsPaths = expand_loop e rootDir allow' files fsPaths"
    by (rule expand_loop_no_directory)
next
  assume "stat e d = Inr sd \<and> isDirectory sd \<and> findFiles e d = Inr rawFiles
        \<and> (\<forall>u \<in> set rawFiles. allow u = Inr True \<or> allow u = Inr False)"
  then show "expand_step e rootDir allow files d
        = files @ map (\<lambda>u. \<lparr>abs_path = u, rel_path = path_relative e rootDir u\<rparr>)
                    (filter (\<lambda>u. allow u = Inr True) rawFiles)"
    by (simp add: expand_step_directory)
qed


theorem file_input_bypasses_ignore_witness:
  "buildIgnoreFilter example_env ''/w'' ''/w/b.bin'' = Inr False
   \<and> expand_step example_env ''/w'' (\<lambda>p. Inr False) [] ''/w/b.bin''
       = [\<lparr>abs_path = ''/w/b.bin'', rel_path = ''b.bin''\<rparr>]
   \<and> \<lparr>abs_path = ''/w/b.bin'', rel_path = ''b.bin''\<rparr>
       \<in> set (expand_loop example_env ''/w'' (\<lambda>p. Inl RangeError) [] [''/w/a.txt'', ''/w/b.bin''])
   \<and> \<lparr>abs_path = ''/w/b.bin'', rel_path = ''b.bin''\<rparr>
       \<in> set (toFile_files example_env [''/w/a.txt'', ''/w/b.bin''])
   \<and> expand_loop example_env ''/w'' (\<lambda>p. Inr False) [] [''/w/a.txt'', ''/w/b.bin'']
       = expand_loop example_env ''/w'' (\<lambda>p. Inr True) [] [''/w/a.txt'', ''/w/b.bin'']
   \<and> expand_step example_env ''/w'' (buildIgnoreFilter example_env ''/w'') [] ''/w''
       = [\<lparr>abs_path = ''/w/a.txt'', rel_path = ''a.txt''\<rparr>]"
proof -
  let ?st = "\<lparr>isDirectory = False, stat_size = 3\<rparr>"
  let ?ps = "[''/w/a.txt'', ''/w/b.bin'']"
  have st: "stat example_env ''/w/b.bin'' = Inr ?st \<and> \<not> isDirectory ?st"
    by (simp add: example_simps)
  have mem: "''/w/b.bin'' \<in> set ?ps"
    by simp
  have nodir: "\<forall>q \<in> set ?ps. \<forall>s. stat example_env q = Inr s \<longrightarrow> \<not> isDirectory s"
    by (auto simp: example_simps)
  have rel: "path_relative example_env ''/w'' ''/w/b.bin'' = ''b.bin''"
    by (simp add: example_simps)
  have a: "expand_step example_env ''/w'' (\<lambda>p. Inr False) [] ''/w/b.bin''
       = [\<lparr>abs_path = ''/w/b.bin'', rel_path = ''b.bin''\<rparr>]"
    using file_input_bypasses_ignore [where e = example_env and p = "''/w/b.bin''" and st = ?st
        and rootDir = "''/w''" and allow = "\<lambda>p. Inr False" and files = "[]"] st rel
    by simp
  have b: "\<lparr>abs_path = ''/w/b.bin'', rel_path = ''b.bin''\<rparr>
       \<in> set (expand_loop example_env ''/w'' (\<lambda>p. Inl RangeError) [] ?ps)"
    using file_input_bypasses_ignore [where e = example_env and p = "''/w/b.bin''" and st = ?st
        and rootDir = "''/w''" and allow = "\<lambda>p. Inl RangeError" and files = "[]" and fsPaths = ?ps]
      st mem rel
    by simp
  have c: "\<lparr>abs_path = ''/w/b.bin'', rel_path = ''b.bin''\<rparr> \<in> set (toFile_files example_env ?ps)"
    using file_input_bypasses_ignore [where e = example_env and p = "''/w/b.bin''" and st = ?st
        and fsPaths = ?ps] st mem rel example_workspace_root
    by simp
  have d: "expand_loop example_env ''/w'' (\<lambda>p. Inr False) [] ?ps
       = expand_loop example_env ''/w'' (\<lambda>p. Inr True) [] ?ps"
    using file_input_bypasses_ignore [where e = example_env and rootDir = "''/w''"
        and allow = "\<lambda>p. Inr False" and allow' = "\<lambda>p. Inr True" and files = "[]" and fsPaths = ?ps]
      nodir
    by blast
  let ?sd = "\<lparr>isDirectory = True, stat_size = 4096\<rparr>"
  let ?raw = "[''/w/a.txt'', ''/w/b.bin'']"
  have dir: "stat example_env ''/w'' = Inr ?sd \<and> isDirectory ?sd
      \<and> findFiles example_env ''/w'' = Inr ?raw"
    by (simp add: example_simps)
  have ia: "buildIgnoreFilter example_env ''/w'' ''/w/a.txt'' = Inr True"
    by (simp add: buildIgnoreFilter_def example_gitignore_content example_simps)
  have tot: "\<forall>u \<in> set ?raw. buildIgnoreFilter example_env ''/w'' u = Inr True
      \<or> buildIgnoreFilter example_env ''/w'' u = Inr False"
    using ia example_ignores_b_bin by simp
  have rel_a: "path_relative example_env ''/w'' ''/w/a.txt'' = ''a.txt''"
    by (simp add: example_simps)
  have f: "expand_step example_env ''/w'' (buildIgnoreFilter example_env ''/w'') [] ''/w''
       = [\<lparr>abs_path = ''/w/a.txt'', rel_path = ''a.txt''\<rparr>]"
    using file_input_bypasses_ignore [where e = example_env and rootDir = "''/w''"
        and allow = "buildIgnoreFilter example_env ''/w''" and files = "[]" and d = "''/w''"
        and sd = ?sd and rawFiles = ?raw]
      dir tot ia example_ignores_b_bin rel_a
    by simp
  from example_ignores_b_bin a b c d f show ?thesis by blast
qed

subsection \<open>The ignore filter\<close>

lemma buildIgnoreFilter_unreadable:
  assumes "readFile e (path_join e rootDir ''.gitignore'') = Inl err"
  shows "buildIgnoreFilter e rootDir = (\<lambda>p. Inr True)"
  using assms by (simp add: buildIgnoreFilter_def)

lemma buildIgnoreFilter_readable:
  assumes "readFile e (path_join e rootDir ''.gitignore'') = Inr bytes"
  shows "buildIgnoreFilter e rootDir p =
           (case ignores e (toString_utf8 e bytes) (path_relative e rootDir p) of
              Inl err \<Rightarrow> Inl err
            | Inr b \<Rightarrow> Inr (\<not> b))"
  using assms by (simp add: buildIgnoreFilter_def)

text \<open>
  Claim C6. When \<^verbatim>\<open>.gitignore\<close> under the root cannot be read (it is absent or
  unreadable), the filter \<^verbatim>\<open>buildIgnoreFilter\<close> returns allows every path, and so does the
  filter \<^verbatim>\<open>buildPromptToFile\<close> uses.
\<close>

theorem missing_ignore_file_allows_all:
  assumes "readFile e (path_join e rootDir ''.gitignore'') = Inl err"
  shows "buildIgnoreFilter e rootDir p = Inr True \<and> allow_of e rootDir p = Inr True"
  using assms by (simp add: allow_of_def buildIgnoreFilter_unreadable)

theorem missing_ignore_file_allows_all_witness:
  "readFile (example_env\<lparr>readFile := (\<lambda>p. Inl ReadError)\<rparr>)
       (path_join (example_env\<lparr>readFile := (\<lambda>p. Inl ReadError)\<rparr>) ''/w'' ''.gitignore'')
     = Inl ReadError
   \<and> buildIgnoreFilter (example_env\<lparr>readFile := (\<lambda>p. Inl ReadError)\<rparr>) ''/w'' ''/w/b.bin''
     = Inr True
   \<and> allow_of (example_env\<lparr>readFile := (\<lambda>p. Inl ReadError)\<rparr>) ''/w'' ''/w/b.bin'' = Inr True"
proof -
  let ?e = "example_env\<lparr>readFile := (\<lambda>p. Inl ReadError)\<rparr>"
  have h: "readFile ?e (path_join ?e ''/w'' ''.gitignore'') = Inl ReadError"
    by simp
  from h missing_ignore_file_allows_all [OF h, of "''/w/b.bin''"] show ?thesis
    by blast
qed

text \<open>
  Claim C9, as the code has it. When \<^verbatim>\<open>.gitignore\<close> was read, the filter's answer for
  a path \<open>p\<close> is the negation of what the \<^verbatim>\<open>ignore\<close> package answers for
  \<^verbatim>\<open>path.relative(root, p)\<close>, and an exception of the package is passed on to the caller.
  This is so for every \<open>p\<close>, inside the root or not: the filter has no case of its own for
  paths outside the root.
\<close>

theorem ignore_filter_matches_relative_path:
  assumes "readFile e (path_join e rootDir ''.gitignore'') = Inr bytes"
  shows "buildIgnoreFilter e rootDir p =
           (case ignores e (toString_utf8 e bytes) (path_relative e rootDir p) of
              Inl err \<Rightarrow> Inl err
            | Inr b \<Rightarrow> Inr (\<not> b))"
  using assms by (rule buildIgnoreFilter_readable)

theorem ignore_filter_matches_relative_path_witness:
  "readFile example_env (path_join example_env ''/w'' ''.gitignore'') = Inr [98, 46, 98, 105, 110]
   \<and> path_relative example_env ''/w'' ''/w/a.txt'' = ''a.txt''
   \<and> ignores example_env ''b.bin'' ''a.txt'' = Inr False
   \<and> buildIgnoreFilter example_env ''/w'' ''/w/a.txt'' = Inr True"
proof -
  have h: "readFile example_env (path_join example_env ''/w'' ''.gitignore'')
      = Inr [98, 46, 98, 105, 110]"
    by (simp add: example_simps)
  have r: "path_relative example_env ''/w'' ''/w/a.txt'' = ''a.txt''"
    by (simp add: example_simps)
  have i: "ignores example_env ''b.bin'' ''a.txt'' = Inr False"
    by (simp add: example_simps)
  have t: "toString_utf8 example_env [98, 46, 98, 105, 110] = ''b.bin''"
    by (simp add: example_env_def example_gitignore_content)
  have "buildIgnoreFilter example_env ''/w'' ''/w/a.txt'' = Inr True"
    using ignore_filter_matches_relative_path [OF h, of "''/w/a.txt''"] r i t by simp
  with h r i show ?thesis by blast
qed

text \<open>
  Claim C9 as the specification states it fails for a path outside the root. With the
  workspace folder \<^verbatim>\<open>/w\<close> and the path \<^verbatim>\<open>/other/b.bin\<close>, \<^verbatim>\<open>path.relative\<close> gives
  \<^verbatim>\<open>../other/b.bin\<close>; the \<^verbatim>\<open>ignore\<close> package rejects such a path with a \<^verbatim>\<open>RangeError\<close>,
  so the filter does not answer true. (Versions of the package before 5 do not validate the
  path; they match the rule \<^verbatim>\<open>b.bin\<close> against it and answer that it is ignored.) In the
  expansion loop the exception reaches the \<^verbatim>\<open>catch\<close> of line 182, and the folder
  \<^verbatim>\<open>/other\<close> contributes no entry.
\<close>

theorem outside_root_not_allowed_counterexample:
  "path_relative example_env ''/w'' ''/other/b.bin'' = ''../other/b.bin''
   \<and> buildIgnoreFilter example_env ''/w'' ''/other/b.bin'' = Inl RangeError
   \<and> buildIgnoreFilter example_env ''/w'' ''/other/b.bin'' \<noteq> Inr True
   \<and> toFile_files example_env [''/other''] = []"
  by (simp add: toFile_files_def allow_of_def workspace_root_def expand_step_def
      buildIgnoreFilter_def example_gitignore_content example_simps)

subsection \<open>Pre-flight\<close>

lemma estimate_loop_sum:
  "estimate_loop e n files =
     n + (\<Sum>f\<leftarrow>files. case statSync e (abs_path f) of Inl err \<Rightarrow> 0 | Inr st \<Rightarrow> stat_size st)"
  by (induction files arbitrary: n) (simp_all split: sum.splits)

lemma estimatedMB_over_10:
  "estimatedMB e files > 10 \<longleftrightarrow> estimatedBytes e files > 10 * 2 ^ 20"
proof -
  have "estimatedMB e files > 10 \<longleftrightarrow> real (estimatedBytes e files) > 10485760"
    by (simp add: estimatedMB_def field_simps)
  also have "\<dots> \<longleftrightarrow> estimatedBytes e files > 10485760"
    using of_nat_less_iff [where 'a = real, of 10485760 "estimatedBytes e files"] by simp
  finally show ?thesis by simp
qed

text \<open>
  Claim C4. \<open>totalFiles\<close> is the number of entries; \<open>estimatedBytes\<close> is the sum of the
  sizes \<^verbatim>\<open>statSync\<close> reports, an entry whose \<^verbatim>\<open>statSync\<close> throws counting 0; the warning
  is asked for exactly when there are more than 1000 entries or more than
  \<open>10 * 2 ^ 20\<close> bytes. So 1001 entries always require confirmation, and 5 entries of 1024
  bytes together do not.
\<close>

theorem preflight_decision:
  "totalFiles files = length files
   \<and> estimatedBytes e files
       = (\<Sum>f\<leftarrow>files. case statSync e (abs_path f) of Inl err \<Rightarrow> 0 | Inr st \<Rightarrow> stat_size st)
   \<and> (requiresConfirmation e files
        \<longleftrightarrow> totalFiles files > 1000 \<or> estimatedBytes e files > 10 * 2 ^ 20)
   \<and> (length files = 1001 \<longrightarrow> requiresConfirmation e files)
   \<and> (length files = 5 \<and> estimatedBytes e files = 1024 \<longrightarrow> \<not> requiresConfirmation e files)"
proof (intro conjI impI)
  show "totalFiles files = length files"
    by (simp add: totalFiles_def)
  show "estimatedBytes e files
       = (\<Sum>f\<leftarrow>files. case statSync e (abs_path f) of Inl err \<Rightarrow> 0 | Inr st \<Rightarrow> stat_size st)"
    by (simp add: estimatedBytes_def estimate_loop_sum)
  show "requiresConfirmation e files
        \<longleftrightarrow> totalFiles files > 1000 \<or> estimatedBytes e files > 10 * 2 ^ 20"
    by (simp only: requiresConfirmation_def estimatedMB_over_10)
next
  assume "length files = 1001"
  then show "requiresConfirmation e files"
    by (simp add: requiresConfirmation_def totalFiles_def)
next
  assume "length files = 5 \<and> estimatedBytes e files = 1024"
  then show "\<not> requiresConfirmation e files"
    by (simp add: requiresConfirmation_def totalFiles_def estimatedMB_over_10)
qed

theorem preflight_decision_witness:
  "requiresConfirmation
       (example_env\<lparr>statSync := (\<lambda>p. Inr \<lparr>isDirectory = False, stat_size = 1\<rparr>)\<rparr>)
       (map (\<lambda>i. \<lparr>abs_path = ''/w/f'' @ replicate i CHR ''x'', rel_path = ''f'' @ replicate i CHR ''x''\<rparr>)
          [0..<1001])
   \<and> estimatedBytes example_env
       [\<lparr>abs_path = ''/w/a.txt'', rel_path = ''a.txt''\<rparr>,
        \<lparr>abs_path = ''/w/gone'', rel_path = ''gone''\<rparr>,
        \<lparr>abs_path = ''/w/b.bin'', rel_path = ''b.bin''\<rparr>] = 8
   \<and> \<not> requiresConfirmation
       (example_env\<lparr>statSync := (\<lambda>p. Inr \<lparr>isDirectory = False,
           stat_size = (if p = ''/w/1'' then 1004 else 5)\<rparr>)\<rparr>)
       [\<lparr>abs_path = ''/w/1'', rel_path = ''1''\<rparr>, \<lparr>abs_path = ''/w/2'', rel_path = ''2''\<rparr>,
        \<lparr>abs_path = ''/w/3'', rel_path = ''3''\<rparr>, \<lparr>abs_path = ''/w/4'', rel_path = ''4''\<rparr>,
        \<lparr>abs_path = ''/w/5'', rel_path = ''5''\<rparr>]
   \<and> \<not> requiresConfirmation
       (example_env\<lparr>statSync := (\<lambda>p. Inr \<lparr>isDirectory = False, stat_size = 10485760\<rparr>)\<rparr>)
       [\<lparr>abs_path = ''/w/1'', rel_path = ''1''\<rparr>]
   \<and> requiresConfirmation
       (example_env\<lparr>statSync := (\<lambda>p. Inr \<lparr>isDirectory = False, stat_size = 10485761\<rparr>)\<rparr>)
       [\<lparr>abs_path = ''/w/1'', rel_path = ''1''\<rparr>]"
proof -
  let ?many = "map (\<lambda>i. \<lparr>abs_path = ''/w/f'' @ replicate i CHR ''x'',
                          rel_path = ''f'' @ replicate i CHR ''x''\<rparr>) [0..<1001]"
  let ?three = "[\<lparr>abs_path = ''/w/a.txt'', rel_path = ''a.txt''\<rparr>,
                 \<lparr>abs_path = ''/w/gone'', rel_path = ''gone''\<rparr>,
                 \<lparr>abs_path = ''/w/b.bin'', rel_path = ''b.bin''\<rparr>]"
  let ?ev = "example_env\<lparr>statSync := (\<lambda>p. Inr \<lparr>isDirectory = False,
                 stat_size = (if p = ''/w/1'' then 1004 else 5)\<rparr>)\<rparr>"
  let ?five = "[\<lparr>abs_path = ''/w/1'', rel_path = ''1''\<rparr>, \<lparr>abs_path = ''/w/2'', rel_path = ''2''\<rparr>,
                \<lparr>abs_path = ''/w/3'', rel_path = ''3''\<rparr>, \<lparr>abs_path = ''/w/4'', rel_path = ''4''\<rparr>,
                \<lparr>abs_path = ''/w/5'', rel_path = ''5''\<rparr>]"
  let ?lo = "example_env\<lparr>statSync := (\<lambda>p. Inr \<lparr>isDirectory = False, stat_size = 10485760\<rparr>)\<rparr>"
  let ?hi = "example_env\<lparr>statSync := (\<lambda>p. Inr \<lparr>isDirectory = False, stat_size = 10485761\<rparr>)\<rparr>"
  let ?one = "[\<lparr>abs_path = ''/w/1'', rel_path = ''1''\<rparr>]"
  have len: "length ?many = 1001"
    by simp
  have a: "requiresConfirmation
      (example_env\<lparr>statSync := (\<lambda>p. Inr \<lparr>isDirectory = False, stat_size = 1\<rparr>)\<rparr>) ?many"
    using preflight_decision [of ?many
        "example_env\<lparr>statSync := (\<lambda>p. Inr \<lparr>isDirectory = False, stat_size = 1\<rparr>)\<rparr>"] len
    by blast
  have b: "estimatedBytes example_env ?three = 8"
    using preflight_decision [of ?three example_env] by (simp add: example_simps)
  have five: "length ?five = 5 \<and> estimatedBytes ?ev ?five = 1024"
    using preflight_decision [of ?five ?ev] by simp
  have c: "\<not> requiresConfirmation ?ev ?five"
    using preflight_decision [of ?five ?ev] five by blast
  have d: "\<not> requiresConfirmation ?lo ?one"
    using preflight_decision [of ?one ?lo] by simp
  have e: "requiresConfirmation ?hi ?one"
    using preflight_decision [of ?one ?hi] by simp
  from a b c d e show ?thesis by blast
qed

subsection \<open>Streaming\<close>

lemma split_char_not_Nil: "split_char c s \<noteq> []"
  by (induction s) (auto split: list.splits)

lemma split_char_prefix:
  assumes "c \<notin> set x"
  shows "split_char c (x @ c # rest) = x # split_char c rest"
  using assms by (induction x) auto

lemma split_char_single:
  assumes "c \<notin> set x"
  shows "split_char c x = [x]"
  using assms by (induction x) auto

lemma split_char_join:
  assumes "xs \<noteq> []" and "\<forall>x \<in> set xs. c \<notin> set x"
  shows "split_char c (join [c] xs) = xs"
  using assms
proof (induction "[c]" xs rule: join.induct)
  case 1
  then show ?case by simp
next
  case (2 x)
  then show ?case by (simp add: split_char_single)
next
  case (3 x y ys)
  then show ?case by (simp add: split_char_prefix)
qed

lemma stream_files_concat:
  "stream_files e out files = out @ concat (map (stream_file e) files)"
  by (induction files arbitrary: out) simp_all

lemma concat_concat_map: "concat (concat xss) = concat (map concat xss)"
  by (induction xss) simp_all

lemma toFile_stream_concat:
  "concat (toFile_stream e files)
     = toFile_header files @ concat (map (\<lambda>f. concat (stream_file e f)) files)"
  by (simp add: toFile_stream_def stream_files_concat concat_concat_map comp_def)

lemma stream_file_binary:
  assumes "readFile e (abs_path f) = Inr buffer" and "looksBinary buffer"
  shows "stream_file e f = []"
  using assms by (simp add: stream_file_def)

lemma stream_file_unreadable:
  assumes "readFile e (abs_path f) = Inl err"
  shows "stream_file e f
           = [''### '' @ rel_path f @ ''\<newline>```\<newline>[unreadable]\<newline>```\<newline>\<newline>'']"
  using assms by (simp add: stream_file_def)


text \<open>
  Claim C3. The text written to the output file starts with the header, whose fenced block
  is the relative paths of all entries joined by newlines, in the order of \<open>files\<close>; the
  sections of the files follow. The listing is built from \<open>files\<close> alone, before any file
  is read. When the list is not empty and no relative path contains a newline, splitting
  the block at newlines gives back exactly the relative paths, one per line. For an entry
  whose bytes \<^verbatim>\<open>looksBinary\<close> classifies as binary nothing is written in the content part,
  while its relative path is in the listing.
\<close>

theorem structure_listing_first:
  "concat (toFile_stream e files)
     = ''# Context Generation Request\<newline>\<newline>## Project Structure:\<newline>```\<newline>''
       @ join ''\<newline>'' (map rel_path files)
       @ ''\<newline>```\<newline>\<newline>## File Contents:\<newline>\<newline>''
       @ concat (map (\<lambda>f. concat (stream_file e f)) files)
   \<and> (files \<noteq> [] \<and> (\<forall>f \<in> set files. CHR ''\<newline>'' \<notin> set (rel_path f)) \<longrightarrow>
        split_char CHR ''\<newline>'' (join ''\<newline>'' (map rel_path files)) = map rel_path files)
   \<and> (readFile e (abs_path f) = Inr buffer \<and> looksBinary buffer \<longrightarrow>
        stream_file e f = []
        \<and> concat (toFile_stream e (pre @ f # post))
            = ''# Context Generation Request\<newline>\<newline>## Project Structure:\<newline>```\<newline>''
              @ join ''\<newline>'' (map rel_path pre @ rel_path f # map rel_path post)
              @ ''\<newline>```\<newline>\<newline>## File Contents:\<newline>\<newline>''
              @ concat (map (\<lambda>g. concat (stream_file e g)) pre)
              @ concat (map (\<lambda>g. concat (stream_file e g)) post))"
proof (intro conjI impI)
  show "concat (toFile_stream e files)
     = ''# Context Generation Request\<newline>\<newline>## Project Structure:\<newline>```\<newline>''
       @ join ''\<newline>'' (map rel_path files)
       @ ''\<newline>```\<newline>\<newline>## File Contents:\<newline>\<newline>''
       @ concat (map (\<lambda>f. concat (stream_file e f)) files)"
    by (simp add: toFile_stream_concat toFile_header_def)
next
  assume "files \<noteq> [] \<and> (\<forall>f \<in> set files. CHR ''\<newline>'' \<notin> set (rel_path f))"
  then show "split_char CHR ''\<newline>'' (join ''\<newline>'' (map rel_path files)) = map rel_path files"
    using split_char_join [of "map rel_path files" "CHR ''\<newline>''"] by simp
next
  assume "readFile e (abs_path f) = Inr buffer \<and> looksBinary buffer"
  then show "stream_file e f = []"
    by (simp add: stream_file_binary)
next
  assume "readFile e (abs_path f) = Inr buffer \<and> looksBinary buffer"
  then have "stream_file e f = []"
    by (simp add: stream_file_binary)
  then show "concat (toFile_stream e (pre @ f # post))
            = ''# Context Generation Request\<newline>\<newline>## Project Structure:\<newline>```\<newline>''
              @ join ''\<newline>'' (map rel_path pre @ rel_path f # map rel_path post)
              @ ''\<newline>```\<newline>\<newline>## File Contents:\<newline>\<newline>''
              @ concat (map (\<lambda>g. concat (stream_file e g)) pre)
              @ concat (map (\<lambda>g. concat (stream_file e g)) post)"
    by (simp add: toFile_stream_concat toFile_header_def)
qed

theorem structure_listing_first_witness:
  "split_char CHR ''\<newline>'' (join ''\<newline>'' [''a.txt'', ''b.bin'']) = [''a.txt'', ''b.bin'']
   \<and> readFile example_env ''/w/b.bin'' = Inr [0, 1, 2] \<and> looksBinary [0, 1, 2]
   \<and> stream_file example_env \<lparr>abs_path = ''/w/b.bin'', rel_path = ''b.bin''\<rparr> = []
   \<and> concat (toFile_stream example_env
        [\<lparr>abs_path = ''/w/a.txt'', rel_path = ''a.txt''\<rparr>,
         \<lparr>abs_path = ''/w/b.bin'', rel_path = ''b.bin''\<rparr>])
      = ''# Context Generation Request\<newline>\<newline>## Project Structure:\<newline>```\<newline>a.txt\<newline>b.bin\<newline>```\<newline>\<newline>## File Contents:\<newline>\<newline>### a.txt\<newline>```\<newline>hello\<newline>```\<newline>\<newline>''"
proof -
  let ?a = "\<lparr>abs_path = ''/w/a.txt'', rel_path = ''a.txt''\<rparr>"
  let ?b = "\<lparr>abs_path = ''/w/b.bin'', rel_path = ''b.bin''\<rparr>"
  have ne: "[?a, ?b] \<noteq> [] \<and> (\<forall>f \<in> set [?a, ?b]. CHR ''\<newline>'' \<notin> set (rel_path f))"
    by simp
  have bin: "readFile example_env (abs_path ?b) = Inr [0, 1, 2] \<and> looksBinary [0, 1, 2]"
    by (simp add: example_simps example_contents)
  have sa: "concat (stream_file example_env ?a) = ''### a.txt\<newline>```\<newline>hello\<newline>```\<newline>\<newline>''"
    by (simp add: stream_file_def example_simps example_contents)
  note t = structure_listing_first [where e = example_env and files = "[?a, ?b]" and f = ?b
      and buffer = "[0, 1, 2]" and pre = "[?a]" and post = "[]"]
  have l: "split_char CHR ''\<newline>'' (join ''\<newline>'' [''a.txt'', ''b.bin'']) = [''a.txt'', ''b.bin'']"
    using t ne by simp
  have s: "stream_file example_env ?b = []"
    using t bin by blast
  have d: "concat (toFile_stream example_env [?a, ?b])
      = ''# Context Generation Request\<newline>\<newline>## Project Structure:\<newline>```\<newline>a.txt\<newline>b.bin\<newline>```\<newline>\<newline>## File Contents:\<newline>\<newline>### a.txt\<newline>```\<newline>hello\<newline>```\<newline>\<newline>''"
    using t bin sa by simp
  from l bin s d show ?thesis by simp
qed

lemma buildPromptToFile_proceeds:
  assumes "\<not> (requiresConfirmation e (toFile_files e fsPaths)
              \<and> showWarningMessage e (totalFiles (toFile_files e fsPaths))
                   (estimatedBytes e (toFile_files e fsPaths)) \<noteq> Some ''Yes'')"
    and "\<not> stream_error e"
  shows "buildPromptToFile e fsPaths outputFile
           = Some (Inr (Some (concat (toFile_stream e (toFile_files e fsPaths)))))"
  using assms by (auto simp: buildPromptToFile_def Let_def)

text \<open>
  Claim C5. When \<^verbatim>\<open>readFile\<close> throws for an entry, the iteration writes the header line
  of the entry and the fenced marker \<^verbatim>\<open>[unreadable]\<close>, and the loop goes on with the
  entries after it: the sections of the entries before and after are the same as if the
  unreadable one were not there, and the run, unless it was declined at the warning or the
  write stream itself fails, ends with the whole document in the output file.
\<close>

theorem unreadable_file_marked:
  assumes "readFile e (abs_path f) = Inl err"
  shows "stream_file e f
           = [''### '' @ rel_path f @ ''\<newline>```\<newline>[unreadable]\<newline>```\<newline>\<newline>'']
   \<and> stream_files e out (f # post)
       = stream_files e
           (out @ [''### '' @ rel_path f @ ''\<newline>```\<newline>[unreadable]\<newline>```\<newline>\<newline>'']) post
   \<and> concat (toFile_stream e (pre @ f # post))
       = toFile_header (pre @ f # post)
         @ concat (map (\<lambda>g. concat (stream_file e g)) pre)
         @ ''### '' @ rel_path f @ ''\<newline>```\<newline>[unreadable]\<newline>```\<newline>\<newline>''
         @ concat (map (\<lambda>g. concat (stream_file e g)) post)
   \<and> (toFile_files e fsPaths = pre @ f # post
        \<and> \<not> (requiresConfirmation e (toFile_files e fsPaths)
              \<and> showWarningMessage e (totalFiles (toFile_files e fsPaths))
                   (estimatedBytes e (toFile_files e fsPaths)) \<noteq> Some ''Yes'')
        \<and> \<not> stream_error e \<longrightarrow>
        buildPromptToFile e fsPaths outputFile
          = Some (Inr (Some (toFile_header (pre @ f # post)
                  @ concat (map (\<lambda>g. concat (stream_file e g)) pre)
                  @ ''### '' @ rel_path f @ ''\<newline>```\<newline>[unreadable]\<newline>```\<newline>\<newline>''
                  @ concat (map (\<lambda>g. concat (stream_file e g)) post)))))"
proof -
  have m: "stream_file e f
           = [''### '' @ rel_path f @ ''\<newline>```\<newline>[unreadable]\<newline>```\<newline>\<newline>'']"
    using assms by (rule stream_file_unreadable)
  have s: "stream_files e out (f # post)
       = stream_files e
           (out @ [''### '' @ rel_path f @ ''\<newline>```\<newline>[unreadable]\<newline>```\<newline>\<newline>'']) post"
    using m by simp
  have c: "concat (toFile_stream e (pre @ f # post))
       = toFile_header (pre @ f # post)
         @ concat (map (\<lambda>g. concat (stream_file e g)) pre)
         @ ''### '' @ rel_path f @ ''\<newline>```\<newline>[unreadable]\<newline>```\<newline>\<newline>''
         @ concat (map (\<lambda>g. concat (stream_file e g)) post)"
    using m by (simp add: toFile_stream_concat)
  have r: "buildPromptToFile e fsPaths outputFile
          = Some (Inr (Some (toFile_header (pre @ f # post)
                  @ concat (map (\<lambda>g. concat (stream_file e g)) pre)
                  @ ''### '' @ rel_path f @ ''\<newline>```\<newline>[unreadable]\<newline>```\<newline>\<newline>''
                  @ concat (map (\<lambda>g. concat (stream_file e g)) post))))"
    if "toFile_files e fsPaths = pre @ f # post"
      and "\<not> (requiresConfirmation e (toFile_files e fsPaths)
              \<and> showWarningMessage e (totalFiles (toFile_files e fsPaths))
                   (estimatedBytes e (toFile_files e fsPaths)) \<noteq> Some ''Yes'')"
      and "\<not> stream_error e"
    using buildPromptToFile_proceeds [OF that(2,3), of outputFile] c that(1) by simp
  from m s c r show ?thesis by blast
qed

theorem unreadable_file_marked_witness:
  "readFile (example_env\<lparr>readFile := (\<lambda>p. if p = ''/w/a.txt'' then Inl ReadError else example_readFile p)\<rparr>)
       ''/w/a.txt'' = Inl ReadError
   \<and> buildPromptToFile
        (example_env\<lparr>readFile := (\<lambda>p. if p = ''/w/a.txt'' then Inl ReadError else example_readFile p)\<rparr>)
        [''/w/a.txt'', ''/other/b.bin''] None
      = Some (Inr (Some ''# Context Generation Request\<newline>\<newline>## Project Structure:\<newline>```\<newline>a.txt\<newline>../other/b.bin\<newline>```\<newline>\<newline>## File Contents:\<newline>\<newline>### a.txt\<newline>```\<newline>[unreadable]\<newline>```\<newline>\<newline>### ../other/b.bin\<newline>```\<newline>hi\<newline>```\<newline>\<newline>''))"
proof -
  let ?e = "example_env\<lparr>readFile := (\<lambda>p. if p = ''/w/a.txt'' then Inl ReadError else example_readFile p)\<rparr>"
  let ?a = "\<lparr>abs_path = ''/w/a.txt'', rel_path = ''a.txt''\<rparr>"
  let ?o = "\<lparr>abs_path = ''/other/b.bin'', rel_path = ''../other/b.bin''\<rparr>"
  let ?ps = "[''/w/a.txt'', ''/other/b.bin'']"
  have gone: "readFile ?e (abs_path ?a) = Inl ReadError"
    by simp
  have files: "toFile_files ?e ?ps = [] @ ?a # [?o]"
    by (simp add: pipeline_defs example_simps)
  have small: "\<not> (requiresConfirmation ?e (toFile_files ?e ?ps)
              \<and> showWarningMessage ?e (totalFiles (toFile_files ?e ?ps))
                   (estimatedBytes ?e (toFile_files ?e ?ps)) \<noteq> Some ''Yes'')"
    unfolding files by (simp add: pipeline_defs example_simps)
  have so: "concat (stream_file ?e ?o) = ''### ../other/b.bin\<newline>```\<newline>hi\<newline>```\<newline>\<newline>''"
    by (simp add: stream_file_def example_simps example_contents)
  have ok: "\<not> stream_error ?e"
    by (simp add: example_env_def)
  have "buildPromptToFile ?e ?ps None
      = Some (Inr (Some ''# Context Generation Request\<newline>\<newline>## Project Structure:\<newline>```\<newline>a.txt\<newline>../other/b.bin\<newline>```\<newline>\<newline>## File Contents:\<newline>\<newline>### a.txt\<newline>```\<newline>[unreadable]\<newline>```\<newline>\<newline>### ../other/b.bin\<newline>```\<newline>hi\<newline>```\<newline>\<newline>''))"
    using unreadable_file_marked [OF gone, where fsPaths = ?ps and pre = "[]" and post = "[?o]"
        and outputFile = None] files small ok so
    by (simp add: toFile_header_def)
  with gone show ?thesis by simp
qed

text \<open>
  Claim C7. When the pre-flight condition holds and the answer to the warning is not
  \<^verbatim>\<open>Yes\<close>, \<^verbatim>\<open>buildPromptToFile\<close> returns before the write stream is created: the file
  at the output path is as it was before the call, so it does not exist if it did not
  exist. The call returns normally (\<open>Some (Inr _)\<close>), whatever the write stream would
  have done.
\<close>

theorem declined_leaves_output_untouched:
  assumes "requiresConfirmation e (toFile_files e fsPaths)"
    and "showWarningMessage e (totalFiles (toFile_files e fsPaths))
           (estimatedBytes e (toFile_files e fsPaths)) \<noteq> Some ''Yes''"
  shows "buildPromptToFile e fsPaths outputFile = Some (Inr outputFile)
         \<and> buildPromptToFile e fsPaths None = Some (Inr None)"
  using assms by (simp add: buildPromptToFile_def Let_def)

theorem declined_leaves_output_untouched_witness:
  "requiresConfirmation
       (example_env\<lparr>statSync := (\<lambda>p. Inr \<lparr>isDirectory = False, stat_size = 20000000\<rparr>)\<rparr>)
       (toFile_files (example_env\<lparr>statSync := (\<lambda>p. Inr \<lparr>isDirectory = False, stat_size = 20000000\<rparr>)\<rparr>)
          [''/w/a.txt''])
   \<and> buildPromptToFile
        (example_env\<lparr>statSync := (\<lambda>p. Inr \<lparr>isDirectory = False, stat_size = 20000000\<rparr>)\<rparr>)
        [''/w/a.txt''] None = Some (Inr None)
   \<and> buildPromptToFile
        (example_env\<lparr>statSync := (\<lambda>p. Inr \<lparr>isDirectory = False, stat_size = 20000000\<rparr>)\<rparr>)
        [''/w/a.txt''] (Some ''old'') = Some (Inr (Some ''old''))"
proof -
  let ?e = "example_env\<lparr>statSync := (\<lambda>p. Inr \<lparr>isDirectory = False, stat_size = 20000000\<rparr>)\<rparr>"
  let ?ps = "[''/w/a.txt'']"
  have files: "toFile_files ?e ?ps = [\<lparr>abs_path = ''/w/a.txt'', rel_path = ''a.txt''\<rparr>]"
    by (simp add: pipeline_defs example_simps)
  have big: "requiresConfirmation ?e (toFile_files ?e ?ps)"
    unfolding files by (simp add: pipeline_defs)
  have no: "showWarningMessage ?e (totalFiles (toFile_files ?e ?ps))
              (estimatedBytes ?e (toFile_files ?e ?ps)) \<noteq> Some ''Yes''"
    by (simp add: example_env_def)
  from big declined_leaves_output_untouched [OF big no, of None]
    declined_leaves_output_untouched [OF big no, of "Some ''old''"]
  show ?thesis by simp
qed

text \<open>
  Claim C8, as the code has it. The relative path of every entry is
  \<^verbatim>\<open>path.relative(root, abs)\<close> for the one root of the run, the first workspace folder, or
  the empty string when there is none. With the empty root the same call is made, without
  an exception and without a case of its own: the relative path is then whatever
  \<^verbatim>\<open>path.relative\<close> returns for an empty first argument.
\<close>

theorem rel_path_is_path_relative:
  "(f \<in> set (toFile_files e fsPaths) \<longrightarrow>
      rel_path f = path_relative e (workspace_root e) (abs_path f))
   \<and> (workspaceFolder e = None \<or> workspaceFolder e = Some [] \<longrightarrow> workspace_root e = [])
   \<and> (f \<in> set (toFile_files e fsPaths) \<and> (workspaceFolder e = None \<or> workspaceFolder e = Some []) \<longrightarrow>
      rel_path f = path_relative e [] (abs_path f))"
proof -
  have a: "f \<in> set (toFile_files e fsPaths) \<Longrightarrow>
      rel_path f = path_relative e (workspace_root e) (abs_path f)"
    unfolding toFile_files_def Let_def by (rule expand_loop_rel)
  have b: "workspaceFolder e = None \<or> workspaceFolder e = Some [] \<Longrightarrow> workspace_root e = []"
    by (auto simp: workspace_root_def)
  from a b show ?thesis by auto
qed

theorem rel_path_is_path_relative_witness:
  "\<lparr>abs_path = ''/w/a.txt'', rel_path = ''a.txt''\<rparr> \<in> set (toFile_files example_env [''/w''])
   \<and> path_relative example_env (workspace_root example_env) ''/w/a.txt'' = ''a.txt''
   \<and> workspace_root (example_env\<lparr>workspaceFolder := None\<rparr>) = []
   \<and> \<lparr>abs_path = ''/w/a.txt'', rel_path = ''../../w/a.txt''\<rparr>
        \<in> set (toFile_files (example_env\<lparr>workspaceFolder := None\<rparr>) [''/w/a.txt''])
   \<and> path_relative (example_env\<lparr>workspaceFolder := None\<rparr>) [] ''/w/a.txt'' = ''../../w/a.txt''"
proof -
  let ?a = "\<lparr>abs_path = ''/w/a.txt'', rel_path = ''a.txt''\<rparr>"
  let ?n = "example_env\<lparr>workspaceFolder := None\<rparr>"
  let ?r = "\<lparr>abs_path = ''/w/a.txt'', rel_path = ''../../w/a.txt''\<rparr>"
  have m: "?a \<in> set (toFile_files example_env [''/w''])"
    by (simp add: pipeline_defs example_simps example_contents)
  have m0: "?r \<in> set (toFile_files ?n [''/w/a.txt''])"
    by (simp add: pipeline_defs example_simps)
  have n: "workspaceFolder ?n = None \<or> workspaceFolder ?n = Some []"
    by simp
  have r: "path_relative example_env (workspace_root example_env) ''/w/a.txt'' = ''a.txt''"
    using rel_path_is_path_relative [of ?a example_env "[''/w'']"] m by simp
  have w0: "workspace_root ?n = []"
    using rel_path_is_path_relative [of ?r ?n "[''/w/a.txt'']"] n by blast
  have r0: "path_relative ?n [] ''/w/a.txt'' = ''../../w/a.txt''"
    using rel_path_is_path_relative [of ?r ?n "[''/w/a.txt'']"] m0 n by simp
  from m r w0 m0 r0 show ?thesis by blast
qed

text \<open>
  Claim C8 as the specification states it fails when there is no workspace folder. The
  root is then the empty string, and \<^verbatim>\<open>path.relative("", p)\<close> resolves the empty string
  to the working directory of the process: with the process in \<^verbatim>\<open>/opt/code\<close>, the entry
  for \<^verbatim>\<open>/w/a.txt\<close> gets the relative path \<^verbatim>\<open>../../w/a.txt\<close>, not the path as given.
\<close>

theorem empty_root_rel_path_counterexample:
  "workspace_root (example_env\<lparr>workspaceFolder := None\<rparr>) = []
   \<and> toFile_files (example_env\<lparr>workspaceFolder := None\<rparr>) [''/w/a.txt'']
       = [\<lparr>abs_path = ''/w/a.txt'', rel_path = ''../../w/a.txt''\<rparr>]
   \<and> ''../../w/a.txt'' \<noteq> ''/w/a.txt''"
  by (simp add: pipeline_defs example_simps)

subsection \<open>The two variants\<close>

lemma prompt_expand_loop_eq:
  "prompt_expand_loop e rootDir allow files fsPaths = expand_loop e rootDir allow files fsPaths"
  by (induction fsPaths arbitrary: files) (simp_all add: prompt_expand_step_def expand_step_def)

lemma prompt_loop_concat:
  assumes "\<forall>f \<in> set files. decodes e f"
  shows "prompt_loop e prompt files = prompt @ concat (map (\<lambda>f. concat (stream_file e f)) files)"
  using assms
proof (induction files arbitrary: prompt)
  case Nil
  show ?case by simp
next
  case (Cons f files)
  from Cons.prems have rest: "\<forall>g \<in> set files. decodes e g" and here: "decodes e f"
    by simp_all
  from here have "(case readFile e (abs_path f) of
          Inl err \<Rightarrow> prompt @ ''### '' @ rel_path f @ ''\<newline>```\<newline>[unreadable]\<newline>```\<newline>\<newline>''
        | Inr buffer \<Rightarrow>
            if looksBinary buffer then prompt
            else (case buffer_toString e buffer of
                    Inl err \<Rightarrow>
                      prompt @ ''### '' @ rel_path f @ ''\<newline>```\<newline>[unreadable]\<newline>```\<newline>\<newline>''
                  | Inr content \<Rightarrow>
                      prompt @ ''### '' @ rel_path f @ ''\<newline>```\<newline>'' @ content
                        @ ''\<newline>```\<newline>\<newline>''))
      = prompt @ concat (stream_file e f)"
    by (auto simp: decodes_def stream_file_def buffer_toString_def Let_def split: sum.splits)
  then show ?case
    using Cons.IH [OF rest, of "prompt @ concat (stream_file e f)"] by simp
qed

lemma buildPrompt_files:
  "buildPrompt e fsPaths
     = prompt_loop e (toFile_header (toFile_files e fsPaths)) (toFile_files e fsPaths)"
  by (simp add: buildPrompt_def Let_def prompt_expand_loop_eq toFile_header_def
      toFile_files_def workspace_root_def allow_of_def)

lemma buildPrompt_eq_stream:
  assumes "\<forall>f \<in> set (toFile_files e fsPaths). decodes e f"
  shows "buildPrompt e fsPaths = concat (toFile_stream e (toFile_files e fsPaths))"
  by (simp add: buildPrompt_files prompt_loop_concat [OF assms] toFile_stream_concat)

text \<open>
  Where the two variants agree. When the pre-flight condition does not hold and
  \<^verbatim>\<open>buffer.toString\<close> throws on none of the entries, the streaming variant, if its write
  stream finishes, leaves in the output file exactly the string the in-memory variant
  returns.
\<close>

lemma streaming_agrees_when_decodable:
  assumes "\<not> requiresConfirmation e (toFile_files e fsPaths)"
    and "\<forall>f \<in> set (toFile_files e fsPaths). decodes e f"
  shows "buildPromptToFile e fsPaths outputFile
           = (if stream_error e then
                (if error_before_listener e \<and> toFile_files e fsPaths \<noteq> [] then None
                 else Some (Inl StreamError))
              else Some (Inr (Some (buildPrompt e fsPaths))))"
  using assms(1) by (simp add: buildPromptToFile_def Let_def buildPrompt_eq_stream [OF assms(2)])

lemma example_agreement:
  "buildPromptToFile example_env [''/w'', ''/w/b.bin'', ''/nope'', ''/other''] None
     = Some (Inr (Some (buildPrompt example_env [''/w'', ''/w/b.bin'', ''/nope'', ''/other''])))"
proof -
  let ?ps = "[''/w'', ''/w/b.bin'', ''/nope'', ''/other'']"
  have files: "toFile_files example_env ?ps
      = [\<lparr>abs_path = ''/w/a.txt'', rel_path = ''a.txt''\<rparr>,
         \<lparr>abs_path = ''/w/b.bin'', rel_path = ''b.bin''\<rparr>]"
    by (simp add: pipeline_defs example_simps example_contents)
  have small: "\<not> requiresConfirmation example_env (toFile_files example_env ?ps)"
    unfolding files by (simp add: pipeline_defs example_simps)
  have dec: "\<forall>f \<in> set (toFile_files example_env ?ps). decodes example_env f"
    unfolding files by (simp add: decodes_def example_simps example_contents)
  show ?thesis
    using streaming_agrees_when_decodable [OF small dec, of None] by (simp add: example_env_def)
qed

lemma pipe_looks_like_text: "\<not> looksBinary (replicate 536870889 97)"
  by (simp add: looksBinary_take)

lemma pipe_too_long: "buffer_toString pipe_env (replicate 536870889 97) = Inl StringTooLong"
  by (simp add: buffer_toString_def pipe_env_def example_env_def bytes_toString_def)

lemma pipe_files:
  "toFile_files pipe_env [''/w/pipe''] = [\<lparr>abs_path = ''/w/pipe'', rel_path = ''pipe''\<rparr>]"
  by (simp add: pipeline_defs pipe_env_def example_simps)

text \<open>
  Claim C10 says that, when the pre-flight condition does not hold, the text
  \<^verbatim>\<open>buildPromptToFile\<close> leaves in its output file is the string \<^verbatim>\<open>buildPrompt\<close> returns
  on the same inputs. The code departs from it on an entry whose text is too long for a
  string. For the pipe \<^verbatim>\<open>/w/pipe\<close> no confirmation is asked (its size is reported as 0)
  and the write stream finishes; \<^verbatim>\<open>buildPrompt\<close> returns the header and the section
  \<^verbatim>\<open>[unreadable]\<close> of the entry, while \<^verbatim>\<open>buildPromptToFile\<close> has written the header line
  of the entry and its opening fence (line 234) before \<^verbatim>\<open>buffer.toString\<close> throws, so
  that the file holds that line and fence twice, the first fence never closed.
\<close>

theorem streaming_differs_on_decode_failure:
  "\<not> requiresConfirmation pipe_env (toFile_files pipe_env [''/w/pipe''])
   \<and> buildPromptToFile pipe_env [''/w/pipe''] None
      = Some (Inr (Some ''# Context Generation Request\<newline>\<newline>## Project Structure:\<newline>```\<newline>pipe\<newline>```\<newline>\<newline>## File Contents:\<newline>\<newline>### pipe\<newline>```\<newline>### pipe\<newline>```\<newline>[unreadable]\<newline>```\<newline>\<newline>''))
   \<and> buildPrompt pipe_env [''/w/pipe'']
      = ''# Context Generation Request\<newline>\<newline>## Project Structure:\<newline>```\<newline>pipe\<newline>```\<newline>\<newline>## File Contents:\<newline>\<newline>### pipe\<newline>```\<newline>[unreadable]\<newline>```\<newline>\<newline>''
   \<and> buildPromptToFile pipe_env [''/w/pipe''] None
      \<noteq> Some (Inr (Some (buildPrompt pipe_env [''/w/pipe''])))"
proof -
  let ?f = "\<lparr>abs_path = ''/w/pipe'', rel_path = ''pipe''\<rparr>"
  have small: "\<not> requiresConfirmation pipe_env (toFile_files pipe_env [''/w/pipe''])"
    unfolding pipe_files by (simp add: pipeline_defs pipe_env_def example_env_def)
  have ok: "\<not> stream_error pipe_env"
    by (simp add: pipe_env_def example_env_def)
  have rd: "readFile pipe_env ''/w/pipe'' = Inr (replicate 536870889 97)"
    by (simp add: pipe_env_def example_env_def)
  have chunks: "stream_file pipe_env ?f
      = [''### pipe\<newline>```\<newline>'', ''### pipe\<newline>```\<newline>[unreadable]\<newline>```\<newline>\<newline>'']"
    by (simp add: stream_file_def rd pipe_looks_like_text pipe_too_long)
  have streamed: "buildPromptToFile pipe_env [''/w/pipe''] None
      = Some (Inr (Some ''# Context Generation Request\<newline>\<newline>## Project Structure:\<newline>```\<newline>pipe\<newline>```\<newline>\<newline>## File Contents:\<newline>\<newline>### pipe\<newline>```\<newline>### pipe\<newline>```\<newline>[unreadable]\<newline>```\<newline>\<newline>''))"
    using small ok unfolding buildPromptToFile_def Let_def pipe_files
    by (simp add: toFile_stream_def toFile_header_def chunks)
  have in_memory: "buildPrompt pipe_env [''/w/pipe'']
      = ''# Context Generation Request\<newline>\<newline>## Project Structure:\<newline>```\<newline>pipe\<newline>```\<newline>\<newline>## File Contents:\<newline>\<newline>### pipe\<newline>```\<newline>[unreadable]\<newline>```\<newline>\<newline>''"
    unfolding buildPrompt_files pipe_files
    by (simp add: toFile_header_def rd pipe_looks_like_text pipe_too_long)
  from small streamed in_memory show ?thesis by simp
qed

end
